theory Spec2Isabelle
  imports Main
begin

section \<open>The mock authentication service (lib/mockAuth)\<close>

subsection \<open>Data model\<close>

text \<open>
  \<^verbatim>\<open>MockUser\<close>. The interface declares \<^verbatim>\<open>role\<close> as the union
  \<^verbatim>\<open>'employee' | 'manager' | 'admin'\<close>, but \<^verbatim>\<open>signUp\<close> writes the field through an
  \<^verbatim>\<open>as any\<close> cast from a plain string, so at run time the field holds a string. The
  field \<^verbatim>\<open>id\<close> is called \<open>user_id\<close> here.
\<close>

record MockUser =
  user_id :: string
  email :: string
  first_name :: string
  last_name :: string
  role :: string
  created_at :: string

text \<open>\<^verbatim>\<open>MockSession\<close>; \<^verbatim>\<open>expires_at\<close> is a number of milliseconds since the epoch.\<close>

record MockSession =
  user :: MockUser
  access_token :: string
  expires_at :: int

text \<open>The values of the union type that \<^verbatim>\<open>MockUser.role\<close> declares.\<close>

definition recognized_roles :: "string list" where
  "recognized_roles = [''employee'', ''manager'', ''admin'']"

text \<open>
  The error objects \<^verbatim>\<open>{ message, code }\<close> that the service returns in the
  \<^verbatim>\<open>error\<close> field of its results.
\<close>

record auth_error =
  message :: string
  code :: string

definition user_already_exists :: auth_error where
  "user_already_exists = \<lparr>message = ''User already registered'', code = ''user_already_exists''\<rparr>"

definition invalid_credentials :: auth_error where
  "invalid_credentials = \<lparr>message = ''Invalid login credentials'', code = ''invalid_credentials''\<rparr>"

subsection \<open>The credential store\<close>

text \<open>
  The two \<^verbatim>\<open>localStorage\<close> keys \<^verbatim>\<open>mock_users\<close> and \<^verbatim>\<open>mock_session\<close>. A key is
  absent (\<open>None\<close>) or holds the value that was serialised into it; serialising and
  parsing a well-typed record gives the record back, and the storage accepts every write.
\<close>

record Store =
  mock_users :: "MockUser list option"
  mock_session :: "MockSession option"

definition empty_store :: Store where
  "empty_store = \<lparr>mock_users = None, mock_session = None\<rparr>"

definition getStoredUsers :: "Store \<Rightarrow> MockUser list" where
  "getStoredUsers st = (case mock_users st of None \<Rightarrow> [] | Some us \<Rightarrow> us)"

definition saveUsers :: "MockUser list \<Rightarrow> Store \<Rightarrow> Store" where
  "saveUsers us st = st\<lparr>mock_users := Some us\<rparr>"

definition getStoredSession :: "Store \<Rightarrow> MockSession option" where
  "getStoredSession st = mock_session st"

definition saveSession :: "MockSession option \<Rightarrow> Store \<Rightarrow> Store" where
  "saveSession s st =
     (case s of Some sess \<Rightarrow> st\<lparr>mock_session := Some sess\<rparr>
              | None \<Rightarrow> st\<lparr>mock_session := None\<rparr>)"

subsection \<open>Rendering a clock reading in a template string\<close>

definition digit_char :: "nat \<Rightarrow> char" where
  "digit_char d = ''0123456789'' ! d"

fun show_nat :: "nat \<Rightarrow> string" where
  "show_nat n = (if n < 10 then [digit_char n] else show_nat (n div 10) @ [digit_char (n mod 10)])"

declare show_nat.simps [simp del]

definition show_int :: "int \<Rightarrow> string" where
  "show_int i = (if i < 0 then CHR ''-'' # show_nat (nat (- i)) else show_nat (nat i))"

subsection \<open>signUp\<close>

text \<open>
  What \<^verbatim>\<open>signUp\<close> reads from its environment when it builds the new user:
  \<^verbatim>\<open>Date.now()\<close>, the suffix \<^verbatim>\<open>Math.random().toString(36).substring(2)\<close> and
  \<^verbatim>\<open>new Date().toISOString()\<close>.
\<close>

record SignUpEnv =
  now_ms :: int
  random_suffix :: string
  iso_timestamp :: string

text \<open>
  The argument \<^verbatim>\<open>userData\<close>. Its field \<^verbatim>\<open>role?: string\<close> is optional; the fields
  are prefixed with \<open>ud\<close>.
\<close>

record UserData =
  ud_first_name :: string
  ud_last_name :: string
  ud_role :: "string option"

text \<open>
  The operator \<^verbatim>\<open>||\<close> on an optional string with a string default, as in
  \<^verbatim>\<open>(userData.role as any) || 'employee'\<close>: \<^verbatim>\<open>undefined\<close> and the empty string are
  falsy, every other string is truthy.
\<close>

definition or_else :: "string option \<Rightarrow> string \<Rightarrow> string" where
  "or_else v d = (case v of None \<Rightarrow> d | Some s \<Rightarrow> if s = [] then d else s)"

definition signUp ::
  "Store \<Rightarrow> SignUpEnv \<Rightarrow> string \<Rightarrow> string \<Rightarrow> UserData \<Rightarrow> (auth_error + MockUser) \<times> Store" where
  "signUp st env mail password userData =
     (let users = getStoredUsers st in
      case find (\<lambda>u. email u = mail) users of
        Some _ \<Rightarrow> (Inl user_already_exists, st)
      | None \<Rightarrow>
          (let newUser =
                 \<lparr>user_id = ''mock_'' @ show_int (now_ms env) @ ''_'' @ random_suffix env,
                  email = mail,
                  first_name = ud_first_name userData,
                  last_name = ud_last_name userData,
                  role = or_else (ud_role userData) ''employee'',
                  created_at = iso_timestamp env\<rparr>
           in (Inr newUser, saveUsers (users @ [newUser]) st)))"

subsection \<open>signIn, signOut, getSession\<close>

text \<open>
  \<^verbatim>\<open>signIn\<close> reads the clock twice: \<open>t_token\<close> is the reading put into the access
  token, \<open>t_expiry\<close> the reading from which \<^verbatim>\<open>expires_at\<close> is computed.
\<close>

definition signIn ::
  "Store \<Rightarrow> int \<Rightarrow> int \<Rightarrow> string \<Rightarrow> string \<Rightarrow> (auth_error + MockUser \<times> MockSession) \<times> Store" where
  "signIn st t_token t_expiry mail password =
     (let users = getStoredUsers st in
      case find (\<lambda>u. email u = mail) users of
        None \<Rightarrow> (Inl invalid_credentials, st)
      | Some u \<Rightarrow>
          (let session =
                 \<lparr>user = u,
                  access_token = ''mock_token_'' @ show_int t_token,
                  expires_at = t_expiry + 24 * 60 * 60 * 1000\<rparr>
           in (Inr (u, session), saveSession (Some session) st)))"

definition signOut :: "Store \<Rightarrow> Store" where
  "signOut st = saveSession None st"

text \<open>\<open>now\<close> is the reading of \<^verbatim>\<open>Date.now()\<close> in the expiry test.\<close>

definition getSession :: "Store \<Rightarrow> int \<Rightarrow> MockSession option \<times> Store" where
  "getSession st now =
     (case getStoredSession st of
        None \<Rightarrow> (None, st)
      | Some session \<Rightarrow>
          if expires_at session < now then (None, saveSession None st)
          else (Some session, st))"

subsection \<open>getLeavePolicy\<close>

record LeavePolicy =
  annual_quota :: int
  max_consecutive_days :: int
  requires_approval :: bool

definition sick_policy :: LeavePolicy where
  "sick_policy = \<lparr>annual_quota = 10, max_consecutive_days = 5, requires_approval = False\<rparr>"

definition vacation_policy :: LeavePolicy where
  "vacation_policy = \<lparr>annual_quota = 20, max_consecutive_days = 14, requires_approval = True\<rparr>"

definition family_emergency_policy :: LeavePolicy where
  "family_emergency_policy = \<lparr>annual_quota = 5, max_consecutive_days = 3, requires_approval = True\<rparr>"

definition personal_policy :: LeavePolicy where
  "personal_policy = \<lparr>annual_quota = 5, max_consecutive_days = 2, requires_approval = True\<rparr>"

definition other_policy :: LeavePolicy where
  "other_policy = \<lparr>annual_quota = 0, max_consecutive_days = 1, requires_approval = True\<rparr>"

text \<open>The own properties of the object literal \<^verbatim>\<open>policies\<close>, in the order of the source.\<close>

definition policies :: "(string \<times> LeavePolicy) list" where
  "policies =
     [(''sick'', sick_policy),
      (''vacation'', vacation_policy),
      (''family_emergency'', family_emergency_policy),
      (''personal'', personal_policy),
      (''other'', other_policy)]"

text \<open>
  \<^verbatim>\<open>policies\<close> is an object literal, so its prototype is \<^verbatim>\<open>Object.prototype\<close>, and a
  property read \<^verbatim>\<open>policies[k]\<close> that finds no own property goes on to the prototype.
  These are the property names of \<^verbatim>\<open>Object.prototype\<close> in ECMAScript (with its
  Annex B); each holds a function, or for \<^verbatim>\<open>__proto__\<close> the prototype object itself,
  so each value is truthy.
\<close>

definition Object_prototype_keys :: "string list" where
  "Object_prototype_keys =
     [''constructor'', ''hasOwnProperty'', ''isPrototypeOf'', ''propertyIsEnumerable'',
      ''toLocaleString'', ''toString'', ''valueOf'', ''__proto__'',
      ''__defineGetter__'', ''__defineSetter__'', ''__lookupGetter__'', ''__lookupSetter__'']"

text \<open>
  What a property read on \<^verbatim>\<open>policies\<close> yields: one of the policy entries, or the member
  of \<^verbatim>\<open>Object.prototype\<close> of the given name. \<open>None\<close> stands for \<^verbatim>\<open>undefined\<close>.
\<close>

datatype PolicyLookup = PolicyEntry LeavePolicy | InheritedMember string

definition policies_get :: "string \<Rightarrow> PolicyLookup option" where
  "policies_get k =
     (case map_of policies k of
        Some p \<Rightarrow> Some (PolicyEntry p)
      | None \<Rightarrow> if k \<in> set Object_prototype_keys then Some (InheritedMember k) else None)"

text \<open>\<^verbatim>\<open>policies[leave_type as keyof typeof policies] || policies.other\<close>\<close>

definition getLeavePolicy :: "string \<Rightarrow> PolicyLookup" where
  "getLeavePolicy leave_type =
     (case policies_get leave_type of
        Some v \<Rightarrow> v
      | None \<Rightarrow> PolicyEntry other_policy)"

subsection \<open>createDemoUsers\<close>

record DemoUser =
  demo_email :: string
  demo_password :: string
  demo_first_name :: string
  demo_last_name :: string
  demo_role :: string

definition demoUsers :: "DemoUser list" where
  "demoUsers =
     [\<lparr>demo_email = ''admin@demo.com'', demo_password = ''demo123'',
       demo_first_name = ''Admin'', demo_last_name = ''User'', demo_role = ''admin''\<rparr>,
      \<lparr>demo_email = ''manager@demo.com'', demo_password = ''demo123'',
       demo_first_name = ''Manager'', demo_last_name = ''User'', demo_role = ''manager''\<rparr>,
      \<lparr>demo_email = ''employee@demo.com'', demo_password = ''demo123'',
       demo_first_name = ''Employee'', demo_last_name = ''User'', demo_role = ''employee''\<rparr>]"

text \<open>
  The \<^verbatim>\<open>for\<close> loop. \<open>existingUsers\<close> is read once, before the loop; each demo
  identity comes with the environment its \<^verbatim>\<open>signUp\<close> call would read.
\<close>

fun createDemoUsers_loop :: "MockUser list \<Rightarrow> (DemoUser \<times> SignUpEnv) list \<Rightarrow> Store \<Rightarrow> Store" where
  "createDemoUsers_loop existingUsers [] st = st"
| "createDemoUsers_loop existingUsers ((demo, env) # rest) st =
     (case find (\<lambda>u. email u = demo_email demo) existingUsers of
        None \<Rightarrow>
          createDemoUsers_loop existingUsers rest
            (snd (signUp st env (demo_email demo) (demo_password demo)
                    \<lparr>ud_first_name = demo_first_name demo,
                     ud_last_name = demo_last_name demo,
                     ud_role = Some (demo_role demo)\<rparr>))
      | Some _ \<Rightarrow> createDemoUsers_loop existingUsers rest st)"

definition createDemoUsers :: "Store \<Rightarrow> SignUpEnv \<times> SignUpEnv \<times> SignUpEnv \<Rightarrow> Store" where
  "createDemoUsers st envs =
     (case envs of (e1, e2, e3) \<Rightarrow>
        createDemoUsers_loop (getStoredUsers st) (zip demoUsers [e1, e2, e3]) st)"

section \<open>The session coordinator (AuthProvider)\<close>

subsection \<open>Data model\<close>

text \<open>
  The user and session of the primary provider, as far as the coordinator reads them.
  \<^verbatim>\<open>email\<close> is optional; \<^verbatim>\<open>user_metadata\<close> is read through \<^verbatim>\<open>?.\<close>, so it may be
  absent, and it maps a field name to a string.
\<close>

record SupaUser =
  su_id :: string
  su_email :: "string option"
  user_metadata :: "(string \<rightharpoonup> string) option"

record SupaSession =
  supa_user :: SupaUser
  supa_access_token :: string

record Profile =
  p_id :: string
  p_email :: string
  p_first_name :: string
  p_last_name :: string
  p_role :: string
  manager_id :: "string option"
  department :: "string option"

datatype AuthUser = MockU MockUser | SupaU SupaUser

datatype AuthSession = MockS MockSession | SupaS SupaSession

text \<open>
  The five state variables of \<^verbatim>\<open>AuthProvider\<close>; \<^verbatim>\<open>user\<close> and \<^verbatim>\<open>session\<close> are
  called \<open>user_state\<close> and \<open>session_state\<close>.
\<close>

record AuthState =
  user_state :: "AuthUser option"
  session_state :: "AuthSession option"
  profile :: "Profile option"
  loading :: bool
  isMockMode :: bool

text \<open>
  The outcome of the query on the \<^verbatim>\<open>profiles\<close> table: a row, an \<^verbatim>\<open>error\<close> in the
  result, or an exception.
\<close>

datatype ProfileFetch = FetchRow Profile | FetchError string | FetchThrown string

text \<open>The outcome of \<^verbatim>\<open>supabase.auth.getSession()\<close>.\<close>

datatype PrimarySessionResult = PrimarySession "SupaSession option" | PrimaryThrown string

subsection \<open>Profiles\<close>

text \<open>\<^verbatim>\<open>session.user.user_metadata?.field\<close>\<close>

definition metadata_field :: "SupaUser \<Rightarrow> string \<Rightarrow> string option" where
  "metadata_field u k = (case user_metadata u of None \<Rightarrow> None | Some md \<Rightarrow> md k)"

text \<open>
  The object that the source passes to \<^verbatim>\<open>setProfile\<close> in each of its four failure
  branches (the four literals are the same).
\<close>

definition fallbackProfile :: "SupaUser \<Rightarrow> Profile" where
  "fallbackProfile u =
     \<lparr>p_id = su_id u,
      p_email = or_else (su_email u) [],
      p_first_name = or_else (metadata_field u ''first_name'') ''User'',
      p_last_name = or_else (metadata_field u ''last_name'') ''Name'',
      p_role = or_else (metadata_field u ''role'') ''employee'',
      manager_id = None,
      department = None\<rparr>"

text \<open>The profile that the coordinator builds from a user of the mock service.\<close>

definition mockProfile :: "MockUser \<Rightarrow> Profile" where
  "mockProfile u =
     \<lparr>p_id = user_id u,
      p_email = email u,
      p_first_name = first_name u,
      p_last_name = last_name u,
      p_role = role u,
      manager_id = None,
      department = None\<rparr>"

subsection \<open>initializeAuth and the auth state listener\<close>

definition initializeAuth ::
  "AuthState \<Rightarrow> Store \<Rightarrow> SignUpEnv \<times> SignUpEnv \<times> SignUpEnv \<Rightarrow> int \<Rightarrow>
     PrimarySessionResult \<Rightarrow> ProfileFetch \<Rightarrow> AuthState \<times> Store" where
  "initializeAuth a st envs now primary fetch =
     (let st1 = createDemoUsers st envs;
          (mockSession, st2) = getSession st1 now
      in case mockSession of
           Some ms \<Rightarrow>
             (a\<lparr>isMockMode := True,
                user_state := Some (MockU (user ms)),
                session_state := Some (MockS ms),
                profile := Some (mockProfile (user ms)),
                loading := False\<rparr>, st2)
         | None \<Rightarrow>
             (case primary of
                PrimaryThrown _ \<Rightarrow> (a\<lparr>loading := False\<rparr>, st2)
              | PrimarySession None \<Rightarrow> (a\<lparr>loading := False\<rparr>, st2)
              | PrimarySession (Some session) \<Rightarrow>
                  (let a1 = a\<lparr>session_state := Some (SupaS session),
                                user_state := Some (SupaU (supa_user session))\<rparr>
                   in case fetch of
                        FetchRow profileData \<Rightarrow>
                          (a1\<lparr>profile := Some profileData, loading := False\<rparr>, st2)
                      | FetchError _ \<Rightarrow>
                          (a1\<lparr>isMockMode := True,
                              profile := Some (fallbackProfile (supa_user session)),
                              loading := False\<rparr>, st2)
                      | FetchThrown _ \<Rightarrow>
                          (a1\<lparr>isMockMode := True,
                              profile := Some (fallbackProfile (supa_user session)),
                              loading := False\<rparr>, st2))))"

text \<open>
  The callback given to \<^verbatim>\<open>onAuthStateChange\<close>. \<open>mock\<close> is the value of
  \<^verbatim>\<open>isMockMode\<close> that the callback closed over.
\<close>

definition onAuthStateChange :: "bool \<Rightarrow> AuthState \<Rightarrow> SupaSession option \<Rightarrow> ProfileFetch \<Rightarrow> AuthState" where
  "onAuthStateChange mock a session fetch =
     (if \<not> mock then
        (let a1 = a\<lparr>session_state := map_option SupaS session,
                      user_state := map_option (\<lambda>s. SupaU (supa_user s)) session\<rparr>
         in case session of
              Some s \<Rightarrow>
                (case fetch of
                   FetchRow profileData \<Rightarrow> a1\<lparr>profile := Some profileData\<rparr>
                 | FetchError _ \<Rightarrow> a1\<lparr>profile := Some (fallbackProfile (supa_user s))\<rparr>
                 | FetchThrown _ \<Rightarrow> a1\<lparr>profile := Some (fallbackProfile (supa_user s))\<rparr>)
            | None \<Rightarrow> a1\<lparr>profile := None\<rparr>)
      else a)"

section \<open>Example values\<close>

text \<open>A store with one user and a session that expires at the instant 86401000.\<close>

definition alice :: MockUser where
  "alice = \<lparr>user_id = ''mock_41_abc'', email = ''a@x.com'', first_name = ''A'', last_name = ''B'',
             role = ''employee'', created_at = ''2025-01-01T00:00:00.000Z''\<rparr>"

definition alice_session :: MockSession where
  "alice_session = \<lparr>user = alice, access_token = ''mock_token_1000'', expires_at = 86401000\<rparr>"

definition alice_store :: Store where
  "alice_store = \<lparr>mock_users = Some [alice], mock_session = Some alice_session\<rparr>"

definition alice_new_session :: MockSession where
  "alice_new_session = \<lparr>user = alice, access_token = ''mock_token_70'', expires_at = 86400071\<rparr>"

definition example_env :: SignUpEnv where
  "example_env = \<lparr>now_ms = 42, random_suffix = ''k3x9q'', iso_timestamp = ''2025-01-02T00:00:00.000Z''\<rparr>"

definition bob_data :: UserData where
  "bob_data = \<lparr>ud_first_name = ''B'', ud_last_name = ''C'', ud_role = Some ''manager''\<rparr>"

definition bob :: MockUser where
  "bob = \<lparr>user_id = ''mock_42_k3x9q'', email = ''b@x.com'', first_name = ''B'',
           last_name = ''C'', role = ''manager'',
           created_at = ''2025-01-02T00:00:00.000Z''\<rparr>"

definition dan_data :: UserData where
  "dan_data = \<lparr>ud_first_name = ''D'', ud_last_name = ''E'', ud_role = Some ''superuser''\<rparr>"

definition dan :: MockUser where
  "dan = \<lparr>user_id = ''mock_42_k3x9q'', email = ''d@x.com'', first_name = ''D'',
           last_name = ''E'', role = ''superuser'',
           created_at = ''2025-01-02T00:00:00.000Z''\<rparr>"

definition eve_data :: UserData where
  "eve_data = \<lparr>ud_first_name = ''E'', ud_last_name = ''F'', ud_role = None\<rparr>"

definition eve :: MockUser where
  "eve = \<lparr>user_id = ''mock_42_k3x9q'', email = ''e@x.com'', first_name = ''E'',
           last_name = ''F'', role = ''employee'',
           created_at = ''2025-01-02T00:00:00.000Z''\<rparr>"

text \<open>
  A store in which the email of the manager demo identity is taken, and the three records
  that \<^verbatim>\<open>createDemoUsers\<close> builds in the environment \<open>example_env\<close>.
\<close>

definition old_manager :: MockUser where
  "old_manager = \<lparr>user_id = ''mock_7_zz'', email = ''manager@demo.com'', first_name = ''Old'',
                   last_name = ''Boss'', role = ''employee'',
                   created_at = ''2024-12-31T00:00:00.000Z''\<rparr>"

definition partial_store :: Store where
  "partial_store = \<lparr>mock_users = Some [alice, old_manager], mock_session = Some alice_session\<rparr>"

definition example_admin :: MockUser where
  "example_admin = \<lparr>user_id = ''mock_42_k3x9q'', email = ''admin@demo.com'',
                     first_name = ''Admin'', last_name = ''User'', role = ''admin'',
                     created_at = ''2025-01-02T00:00:00.000Z''\<rparr>"

definition example_manager :: MockUser where
  "example_manager = \<lparr>user_id = ''mock_42_k3x9q'', email = ''manager@demo.com'',
                       first_name = ''Manager'', last_name = ''User'', role = ''manager'',
                       created_at = ''2025-01-02T00:00:00.000Z''\<rparr>"

definition example_employee :: MockUser where
  "example_employee = \<lparr>user_id = ''mock_42_k3x9q'', email = ''employee@demo.com'',
                        first_name = ''Employee'', last_name = ''User'', role = ''employee'',
                        created_at = ''2025-01-02T00:00:00.000Z''\<rparr>"

text \<open>A user of the primary provider whose metadata holds a first name only.\<close>

definition carol :: SupaUser where
  "carol = \<lparr>su_id = ''7f3c'', su_email = Some ''carol@corp.example'',
             user_metadata = Some [''first_name'' \<mapsto> ''Carol'']\<rparr>"

definition carol_session :: SupaSession where
  "carol_session = \<lparr>supa_user = carol, supa_access_token = ''jwt''\<rparr>"

definition carol_row :: Profile where
  "carol_row = \<lparr>p_id = ''7f3c'', p_email = ''carol@corp.example'', p_first_name = ''Carol'',
                 p_last_name = ''Jones'', p_role = ''manager'', manager_id = None,
                 department = Some ''Ops''\<rparr>"

definition carol_fallback :: Profile where
  "carol_fallback = \<lparr>p_id = ''7f3c'', p_email = ''carol@corp.example'', p_first_name = ''Carol'',
                      p_last_name = ''Name'', p_role = ''employee'', manager_id = None,
                      department = None\<rparr>"

definition initial_state :: AuthState where
  "initial_state = \<lparr>user_state = None, session_state = None, profile = None,
                     loading = True, isMockMode = False\<rparr>"

section \<open>Properties of the mock authentication service\<close>

subsection \<open>Looking a user up by email\<close>

lemma find_email_None:
  "(find (\<lambda>u. email u = mail) us = None) = (mail \<notin> email ` set us)"
  by (auto simp: find_None_iff)

lemma find_email_Some:
  "find (\<lambda>u. email u = mail) us = Some u \<Longrightarrow> email u = mail \<and> u \<in> set us"
  by (auto simp: find_Some_iff)

subsection \<open>Evaluations on the example values\<close>

lemma signUp_bob:
  "signUp alice_store example_env ''b@x.com'' ''pw'' bob_data
     = (Inr bob, alice_store\<lparr>mock_users := Some [alice, bob]\<rparr>)"
  by (simp add: signUp_def getStoredUsers_def saveUsers_def alice_store_def alice_def bob_def
      bob_data_def example_env_def or_else_def show_int_def show_nat.simps digit_char_def Let_def)

lemma signUp_dan:
  "signUp empty_store example_env ''d@x.com'' ''pw'' dan_data
     = (Inr dan, empty_store\<lparr>mock_users := Some [dan]\<rparr>)"
  by (simp add: signUp_def getStoredUsers_def saveUsers_def empty_store_def dan_def
      dan_data_def example_env_def or_else_def show_int_def show_nat.simps digit_char_def Let_def)

lemma signUp_eve:
  "signUp empty_store example_env ''e@x.com'' ''pw'' eve_data
     = (Inr eve, empty_store\<lparr>mock_users := Some [eve]\<rparr>)"
  by (simp add: signUp_def getStoredUsers_def saveUsers_def empty_store_def eve_def
      eve_data_def example_env_def or_else_def show_int_def show_nat.simps digit_char_def Let_def)

lemma signIn_alice:
  "signIn alice_store 70 71 ''a@x.com'' pw
     = (Inr (alice, alice_new_session), alice_store\<lparr>mock_session := Some alice_new_session\<rparr>)"
  by (simp add: signIn_def getStoredUsers_def saveSession_def alice_store_def alice_def
      alice_new_session_def show_int_def show_nat.simps digit_char_def Let_def)

subsection \<open>getSession\<close>

text \<open>
  Claim C1, as the code has it: \<^verbatim>\<open>getSession\<close> treats a stored session as valid if and
  only if the current time is not after its expiry instant. A stored session whose expiry
  instant is before the current time is deleted from the store and absent is returned;
  a stored session whose expiry instant is the current time or later is returned
  unchanged, and so is the store; with no stored session, absent is returned and the
  store is unchanged.
\<close>

theorem getSession_expiry:
  "(mock_session st = None \<longrightarrow> getSession st now = (None, st)) \<and>
   (mock_session st = Some s \<and> expires_at s < now \<longrightarrow>
      getSession st now = (None, st\<lparr>mock_session := None\<rparr>)) \<and>
   (mock_session st = Some s \<and> now \<le> expires_at s \<longrightarrow>
      getSession st now = (Some s, st))"
  by (simp add: getSession_def getStoredSession_def saveSession_def)

theorem getSession_expiry_witness:
  "mock_session alice_store = Some alice_session \<and> (86401000::int) \<le> expires_at alice_session \<and>
   expires_at alice_session < 86401001 \<and>
   getSession alice_store 86401000 = (Some alice_session, alice_store) \<and>
   getSession alice_store 86401001 = (None, alice_store\<lparr>mock_session := None\<rparr>) \<and>
   getSession empty_store 0 = (None, empty_store)"
  using getSession_expiry [of alice_store 86401000 alice_session]
        getSession_expiry [of alice_store 86401001 alice_session]
        getSession_expiry [of empty_store 0 alice_session]
  by (simp add: alice_store_def alice_session_def empty_store_def)

text \<open>
  C1 as the specification words it fails at the expiry instant itself: the current time
  is then not strictly before the expiry instant, and the stored session is still
  returned and kept.
\<close>

theorem getSession_at_expiry_instant:
  "mock_session alice_store = Some alice_session \<and>
   \<not> (86401000 < expires_at alice_session) \<and>
   getSession alice_store 86401000 = (Some alice_session, alice_store)"
  by (simp add: getSession_def getStoredSession_def alice_store_def alice_session_def)

subsection \<open>signUp\<close>

lemma signUp_role:
  "fst (signUp st env mail password userData) = Inr u \<Longrightarrow>
   role u = or_else (ud_role userData) ''employee''"
  by (auto simp: signUp_def Let_def split: option.splits)

lemma signUp_succeeds:
  "mail \<notin> email ` set (getStoredUsers st) \<Longrightarrow>
   \<exists>u. fst (signUp st env mail password userData) = Inr u \<and> email u = mail"
  by (simp add: signUp_def Let_def find_email_None [symmetric])

text \<open>
  Claim C2, as the code has it: for every successful \<^verbatim>\<open>signUp\<close> call, the returned
  user's role equals the requested role when the requested role is one of employee,
  manager or admin, and equals employee when the role is absent or the empty string.
\<close>

theorem signUp_role_default:
  "fst (signUp st env mail password userData) = Inr u \<Longrightarrow>
   (ud_role userData = Some r \<and> r \<in> set recognized_roles \<longrightarrow> role u = r) \<and>
   (ud_role userData = None \<or> ud_role userData = Some [] \<longrightarrow> role u = ''employee'')"
  by (auto simp: signUp_def Let_def or_else_def recognized_roles_def split: option.splits)

theorem signUp_role_default_witness:
  "fst (signUp alice_store example_env ''b@x.com'' ''pw'' bob_data) = Inr bob \<and>
   ud_role bob_data = Some ''manager'' \<and> ''manager'' \<in> set recognized_roles \<and>
   role bob = ''manager'' \<and>
   fst (signUp empty_store example_env ''e@x.com'' ''pw'' eve_data) = Inr eve \<and>
   ud_role eve_data = None \<and> role eve = ''employee''"
proof -
  have h1: "fst (signUp alice_store example_env ''b@x.com'' ''pw'' bob_data) = Inr bob"
    by (simp add: signUp_bob)
  have h2: "fst (signUp empty_store example_env ''e@x.com'' ''pw'' eve_data) = Inr eve"
    by (simp add: signUp_eve)
  have r1: "ud_role bob_data = Some ''manager''" and r2: "''manager'' \<in> set recognized_roles"
    and r3: "ud_role eve_data = None"
    by (simp_all add: bob_data_def eve_data_def recognized_roles_def)
  from signUp_role_default [OF h1, of "''manager''"] signUp_role_default [OF h2, of "''manager''"]
    h1 h2 r1 r2 r3
  show ?thesis by blast
qed

text \<open>
  C2 as the specification words it fails for a requested role that is a non-empty string
  outside the three recognized values: the string is stored and returned as it is.
\<close>

theorem signUp_unrecognized_role_stored:
  "fst (signUp empty_store example_env ''d@x.com'' ''pw'' dan_data) = Inr dan \<and>
   ud_role dan_data = Some ''superuser'' \<and>
   ''superuser'' \<notin> set recognized_roles \<and>
   role dan = ''superuser'' \<and>
   role dan \<noteq> ''employee''"
proof -
  have "fst (signUp empty_store example_env ''d@x.com'' ''pw'' dan_data) = Inr dan"
    by (simp add: signUp_dan)
  moreover have "ud_role dan_data = Some ''superuser''"
    by (simp add: dan_data_def)
  moreover have "''superuser'' \<notin> set recognized_roles"
    by (simp add: recognized_roles_def)
  moreover have "role dan = ''superuser''" and "role dan \<noteq> ''employee''"
    by (simp_all add: dan_def)
  ultimately show ?thesis by blast
qed

text \<open>
  Claim C3: for every \<^verbatim>\<open>signUp\<close> call whose email already belongs to a stored user, the
  operation fails with the error \<^verbatim>\<open>user_already_exists\<close> and the store, and with it the
  stored user list, is what it was before the call.
\<close>

theorem signUp_existing_email:
  "mail \<in> email ` set (getStoredUsers st) \<Longrightarrow>
   signUp st env mail password userData = (Inl user_already_exists, st)"
proof -
  assume "mail \<in> email ` set (getStoredUsers st)"
  then have "find (\<lambda>u. email u = mail) (getStoredUsers st) \<noteq> None"
    by (simp add: find_email_None)
  then obtain u where "find (\<lambda>u. email u = mail) (getStoredUsers st) = Some u"
    by blast
  then show ?thesis
    by (simp add: signUp_def)
qed

theorem signUp_existing_email_witness:
  "''a@x.com'' \<in> email ` set (getStoredUsers alice_store) \<and>
   signUp alice_store example_env ''a@x.com'' ''pw'' eve_data
     = (Inl user_already_exists, alice_store) \<and>
   getStoredUsers alice_store = [alice]"
proof -
  have h: "''a@x.com'' \<in> email ` set (getStoredUsers alice_store)"
    by (simp add: getStoredUsers_def alice_store_def alice_def)
  have us: "getStoredUsers alice_store = [alice]"
    by (simp add: getStoredUsers_def alice_store_def)
  from signUp_existing_email [OF h, of example_env "''pw''" eve_data] h us
  show ?thesis by blast
qed

text \<open>
  Claim C9: for every successful \<^verbatim>\<open>signUp\<close> call, the stored user list afterwards is the
  previous list with the returned record appended at its end, the previously stored users
  are unchanged, the session slot is not modified, and the email was not present before.
\<close>

theorem signUp_appends_user:
  "fst (signUp st env mail password userData) = Inr u \<Longrightarrow>
   snd (signUp st env mail password userData) = st\<lparr>mock_users := Some (getStoredUsers st @ [u])\<rparr> \<and>
   getStoredUsers (snd (signUp st env mail password userData)) = getStoredUsers st @ [u] \<and>
   mock_session (snd (signUp st env mail password userData)) = mock_session st \<and>
   mail \<notin> email ` set (getStoredUsers st)"
  by (auto simp: signUp_def Let_def saveUsers_def getStoredUsers_def find_email_None
      split: option.splits)

theorem signUp_appends_user_witness:
  "fst (signUp alice_store example_env ''b@x.com'' ''pw'' bob_data) = Inr bob \<and>
   getStoredUsers alice_store = [alice] \<and>
   getStoredUsers (snd (signUp alice_store example_env ''b@x.com'' ''pw'' bob_data)) = [alice, bob] \<and>
   mock_session (snd (signUp alice_store example_env ''b@x.com'' ''pw'' bob_data)) = Some alice_session"
proof -
  have h: "fst (signUp alice_store example_env ''b@x.com'' ''pw'' bob_data) = Inr bob"
    by (simp add: signUp_bob)
  have us: "getStoredUsers alice_store = [alice]"
    by (simp add: getStoredUsers_def alice_store_def)
  have se: "mock_session alice_store = Some alice_session"
    by (simp add: alice_store_def)
  from signUp_appends_user [OF h] h us se show ?thesis
    by (simp add: getStoredUsers_def)
qed

subsection \<open>signIn\<close>

text \<open>
  Claim C4: \<^verbatim>\<open>signIn\<close> fails, and then with the error \<^verbatim>\<open>invalid_credentials\<close>, if and
  only if no stored user has the given email; when a stored user has it, \<^verbatim>\<open>signIn\<close>
  succeeds for every password, and the password has no influence on the result.
\<close>

theorem signIn_fails_iff_unknown_email:
  "((fst (signIn st t_token t_expiry mail password) = Inl invalid_credentials)
      = (mail \<notin> email ` set (getStoredUsers st))) \<and>
   ((\<exists>e. fst (signIn st t_token t_expiry mail password) = Inl e)
      = (mail \<notin> email ` set (getStoredUsers st))) \<and>
   (mail \<in> email ` set (getStoredUsers st) \<longrightarrow>
      (\<exists>u s. fst (signIn st t_token t_expiry mail password') = Inr (u, s))) \<and>
   signIn st t_token t_expiry mail password' = signIn st t_token t_expiry mail password"
  by (auto simp: signIn_def Let_def find_email_None [symmetric] split: option.splits)

theorem signIn_fails_iff_unknown_email_witness:
  "''a@x.com'' \<in> email ` set (getStoredUsers alice_store) \<and>
   (\<exists>u s. fst (signIn alice_store 70 71 ''a@x.com'' ''wrong'') = Inr (u, s)) \<and>
   ''nobody@x.com'' \<notin> email ` set (getStoredUsers alice_store) \<and>
   fst (signIn alice_store 70 71 ''nobody@x.com'' ''pw'') = Inl invalid_credentials"
proof -
  have known: "''a@x.com'' \<in> email ` set (getStoredUsers alice_store)"
    by (simp add: getStoredUsers_def alice_store_def alice_def)
  have unknown: "''nobody@x.com'' \<notin> email ` set (getStoredUsers alice_store)"
    by (simp add: getStoredUsers_def alice_store_def alice_def)
  from signIn_fails_iff_unknown_email [of alice_store 70 71 "''a@x.com''" "''pw''" "''wrong''"]
    signIn_fails_iff_unknown_email [of alice_store 70 71 "''nobody@x.com''" "''pw''" "''pw''"]
    known unknown
  show ?thesis by blast
qed

text \<open>
  Claim C5: for every successful \<^verbatim>\<open>signIn\<close> whose clock reading for the expiry is \<open>T\<close>,
  the session built has the expiry instant \<open>T\<close> plus 24 hours (86400000 milliseconds) and
  binds the matched user, who is the first stored user with the given email; the store
  afterwards is the store before with its single session slot set to that session,
  whatever the slot held; and the user and that session are both returned.
\<close>

theorem signIn_session:
  "fst (signIn st t_token T mail password) = Inr (u, s) \<Longrightarrow>
   expires_at s = T + 86400000 \<and>
   user s = u \<and>
   find (\<lambda>x. email x = mail) (getStoredUsers st) = Some u \<and>
   snd (signIn st t_token T mail password) = st\<lparr>mock_session := Some s\<rparr> \<and>
   getStoredSession (snd (signIn st t_token T mail password)) = Some s"
  by (auto simp: signIn_def Let_def saveSession_def getStoredSession_def split: option.splits)

theorem signIn_session_witness:
  "fst (signIn alice_store 70 71 ''a@x.com'' ''anything'') = Inr (alice, alice_new_session) \<and>
   expires_at alice_new_session = 71 + 86400000 \<and>
   mock_session alice_store = Some alice_session \<and>
   alice_session \<noteq> alice_new_session \<and>
   getStoredSession (snd (signIn alice_store 70 71 ''a@x.com'' ''anything'')) = Some alice_new_session"
proof -
  have h: "fst (signIn alice_store 70 71 ''a@x.com'' ''anything'') = Inr (alice, alice_new_session)"
    by (simp add: signIn_alice)
  have old: "mock_session alice_store = Some alice_session"
    by (simp add: alice_store_def)
  have differ: "alice_session \<noteq> alice_new_session"
    by (simp add: alice_session_def alice_new_session_def)
  have expiry: "expires_at alice_new_session = 71 + 86400000"
    by (simp add: alice_new_session_def)
  from signIn_session [OF h] h old differ expiry show ?thesis
    by blast
qed

text \<open>
  Claim C10: \<^verbatim>\<open>signIn\<close> never modifies the stored user list; a failed \<^verbatim>\<open>signIn\<close> leaves
  the store as it was, and a successful one changes the session slot only.
\<close>

theorem signIn_frame:
  "mock_users (snd (signIn st t_token t_expiry mail password)) = mock_users st \<and>
   getStoredUsers (snd (signIn st t_token t_expiry mail password)) = getStoredUsers st \<and>
   ((\<exists>e. fst (signIn st t_token t_expiry mail password) = Inl e) \<longrightarrow>
      snd (signIn st t_token t_expiry mail password) = st) \<and>
   (\<forall>u s. fst (signIn st t_token t_expiry mail password) = Inr (u, s) \<longrightarrow>
      snd (signIn st t_token t_expiry mail password) = st\<lparr>mock_session := Some s\<rparr>)"
  by (auto simp: signIn_def Let_def saveSession_def getStoredUsers_def split: option.splits)

theorem signIn_frame_witness:
  "fst (signIn alice_store 70 71 ''a@x.com'' ''pw'') = Inr (alice, alice_new_session) \<and>
   snd (signIn alice_store 70 71 ''a@x.com'' ''pw'') = alice_store\<lparr>mock_session := Some alice_new_session\<rparr> \<and>
   getStoredUsers (snd (signIn alice_store 70 71 ''a@x.com'' ''pw'')) = getStoredUsers alice_store \<and>
   (\<exists>e. fst (signIn alice_store 70 71 ''nobody@x.com'' ''pw'') = Inl e) \<and>
   snd (signIn alice_store 70 71 ''nobody@x.com'' ''pw'') = alice_store"
proof -
  have h1: "fst (signIn alice_store 70 71 ''a@x.com'' ''pw'') = Inr (alice, alice_new_session)"
    by (simp add: signIn_alice)
  have h2: "\<exists>e. fst (signIn alice_store 70 71 ''nobody@x.com'' ''pw'') = Inl e"
    by (simp add: signIn_def getStoredUsers_def alice_store_def alice_def)
  from signIn_frame [of alice_store 70 71 "''a@x.com''" "''pw''"]
    signIn_frame [of alice_store 70 71 "''nobody@x.com''" "''pw''"] h1 h2
  show ?thesis by blast
qed

subsection \<open>getLeavePolicy\<close>

lemma getLeavePolicy_own_key:
  "getLeavePolicy ''sick'' = PolicyEntry sick_policy"
  "getLeavePolicy ''vacation'' = PolicyEntry vacation_policy"
  "getLeavePolicy ''family_emergency'' = PolicyEntry family_emergency_policy"
  "getLeavePolicy ''personal'' = PolicyEntry personal_policy"
  "getLeavePolicy ''other'' = PolicyEntry other_policy"
  by (simp_all add: getLeavePolicy_def policies_get_def policies_def)

lemma getLeavePolicy_fallback:
  "k \<notin> fst ` set policies \<Longrightarrow> k \<notin> set Object_prototype_keys \<Longrightarrow>
   getLeavePolicy k = PolicyEntry other_policy"
  by (simp add: getLeavePolicy_def policies_get_def map_of_eq_None_iff [THEN iffD2])

text \<open>
  Claim C7 says that every key outside the five of the table gets the values of the
  \<open>other\<close> entry. For the key \<^verbatim>\<open>constructor\<close>, which is not in the table, the property read
  finds the member that \<^verbatim>\<open>policies\<close> inherits from \<^verbatim>\<open>Object.prototype\<close>; it is truthy, so
  the operator \<^verbatim>\<open>||\<close> keeps it and the \<open>other\<close> entry is not returned.
\<close>

theorem getLeavePolicy_inherited_key:
  "map_of policies ''constructor'' = None \<and>
   getLeavePolicy ''constructor'' = InheritedMember ''constructor'' \<and>
   getLeavePolicy ''constructor'' \<noteq> PolicyEntry other_policy"
  by (simp add: getLeavePolicy_def policies_get_def policies_def Object_prototype_keys_def)

subsection \<open>createDemoUsers\<close>

lemma createDemoUsers_empty:
  "getStoredUsers (createDemoUsers empty_store (e1, e2, e3)) =
     [\<lparr>user_id = ''mock_'' @ show_int (now_ms e1) @ ''_'' @ random_suffix e1,
       email = ''admin@demo.com'', first_name = ''Admin'', last_name = ''User'',
       role = ''admin'', created_at = iso_timestamp e1\<rparr>,
      \<lparr>user_id = ''mock_'' @ show_int (now_ms e2) @ ''_'' @ random_suffix e2,
       email = ''manager@demo.com'', first_name = ''Manager'', last_name = ''User'',
       role = ''manager'', created_at = iso_timestamp e2\<rparr>,
      \<lparr>user_id = ''mock_'' @ show_int (now_ms e3) @ ''_'' @ random_suffix e3,
       email = ''employee@demo.com'', first_name = ''Employee'', last_name = ''User'',
       role = ''employee'', created_at = iso_timestamp e3\<rparr>]"
  by (simp add: createDemoUsers_def demoUsers_def empty_store_def getStoredUsers_def
      signUp_def saveUsers_def or_else_def Let_def)

lemma createDemoUsers_loop_all_present:
  "\<forall>d \<in> fst ` set des. demo_email d \<in> email ` set existing \<Longrightarrow>
   createDemoUsers_loop existing des st = st"
proof (induction des arbitrary: st)
  case Nil
  then show ?case by simp
next
  case (Cons de des)
  obtain d e where de: "de = (d, e)" by (cases de)
  from Cons.prems de have "demo_email d \<in> email ` set existing" by simp
  then have "find (\<lambda>u. email u = demo_email d) existing \<noteq> None"
    by (simp add: find_email_None)
  then obtain u where "find (\<lambda>u. email u = demo_email d) existing = Some u" by blast
  with Cons de show ?case by simp
qed

lemma case_find_email:
  "(case find (\<lambda>u. email u = mail) us of None \<Rightarrow> a | Some x \<Rightarrow> b)
     = (if mail \<in> email ` set us then b else a)"
proof (cases "find (\<lambda>u. email u = mail) us")
  case None
  then have "mail \<notin> email ` set us"
    by (rule iffD1 [OF find_email_None])
  with None show ?thesis by simp
next
  case (Some x)
  have "mail \<in> email ` set us"
  proof (rule ccontr)
    assume "mail \<notin> email ` set us"
    then have "find (\<lambda>u. email u = mail) us = None"
      by (rule iffD2 [OF find_email_None])
    with Some show False by simp
  qed
  with Some show ?thesis by simp
qed

lemma getStoredUsers_saveUsers: "getStoredUsers (saveUsers us st) = us"
  by (simp add: getStoredUsers_def saveUsers_def)

lemma mock_session_saveUsers: "mock_session (saveUsers us st) = mock_session st"
  by (simp add: saveUsers_def)

lemma createDemoUsers_users:
  "getStoredUsers (createDemoUsers st (e1, e2, e3)) =
     getStoredUsers st
     @ (if ''admin@demo.com'' \<in> email ` set (getStoredUsers st) then []
        else [\<lparr>user_id = ''mock_'' @ show_int (now_ms e1) @ ''_'' @ random_suffix e1,
               email = ''admin@demo.com'', first_name = ''Admin'', last_name = ''User'',
               role = ''admin'', created_at = iso_timestamp e1\<rparr>])
     @ (if ''manager@demo.com'' \<in> email ` set (getStoredUsers st) then []
        else [\<lparr>user_id = ''mock_'' @ show_int (now_ms e2) @ ''_'' @ random_suffix e2,
               email = ''manager@demo.com'', first_name = ''Manager'', last_name = ''User'',
               role = ''manager'', created_at = iso_timestamp e2\<rparr>])
     @ (if ''employee@demo.com'' \<in> email ` set (getStoredUsers st) then []
        else [\<lparr>user_id = ''mock_'' @ show_int (now_ms e3) @ ''_'' @ random_suffix e3,
               email = ''employee@demo.com'', first_name = ''Employee'', last_name = ''User'',
               role = ''employee'', created_at = iso_timestamp e3\<rparr>])"
  by (simp add: createDemoUsers_def demoUsers_def signUp_def Let_def case_find_email
      getStoredUsers_saveUsers or_else_def)

lemma createDemoUsers_session:
  "mock_session (createDemoUsers st (e1, e2, e3)) = mock_session st"
  by (simp add: createDemoUsers_def demoUsers_def signUp_def Let_def case_find_email
      mock_session_saveUsers)

lemma createDemoUsers_emails_present:
  "{''admin@demo.com'', ''manager@demo.com'', ''employee@demo.com''}
     \<subseteq> email ` set (getStoredUsers (createDemoUsers st (e1, e2, e3)))"
  by (simp add: createDemoUsers_users)

lemma createDemoUsers_idem:
  "createDemoUsers (createDemoUsers st (e1, e2, e3)) (f1, f2, f3) = createDemoUsers st (e1, e2, e3)"
proof -
  let ?st = "createDemoUsers st (e1, e2, e3)"
  from createDemoUsers_emails_present [of st e1 e2 e3]
  have "\<forall>d \<in> fst ` set (zip demoUsers [f1, f2, f3]).
        demo_email d \<in> email ` set (getStoredUsers ?st)"
    by (simp add: demoUsers_def)
  then show ?thesis
    by (simp add: createDemoUsers_def [of ?st] createDemoUsers_loop_all_present)
qed

lemma example_env_id:
  "''mock_'' @ show_int (now_ms example_env) @ ''_'' @ random_suffix example_env = ''mock_42_k3x9q''"
  "iso_timestamp example_env = ''2025-01-02T00:00:00.000Z''"
  by (simp_all add: example_env_def show_int_def show_nat.simps digit_char_def)

text \<open>
  Claim C6: from any store, \<^verbatim>\<open>createDemoUsers\<close> keeps the stored users and appends, in
  the order admin, manager, employee, the record of each of the three fixed demo identities
  whose email no stored user has; an identity whose email is present is skipped, and the
  session slot is not touched. A second run in succession therefore changes nothing, and
  two runs from an empty store leave exactly three users stored, the admin, the manager
  and the employee demo identity, once each.
\<close>

theorem createDemoUsers_twice:
  "getStoredUsers (createDemoUsers st (e1, e2, e3)) =
     getStoredUsers st
     @ (if ''admin@demo.com'' \<in> email ` set (getStoredUsers st) then []
        else [\<lparr>user_id = ''mock_'' @ show_int (now_ms e1) @ ''_'' @ random_suffix e1,
               email = ''admin@demo.com'', first_name = ''Admin'', last_name = ''User'',
               role = ''admin'', created_at = iso_timestamp e1\<rparr>])
     @ (if ''manager@demo.com'' \<in> email ` set (getStoredUsers st) then []
        else [\<lparr>user_id = ''mock_'' @ show_int (now_ms e2) @ ''_'' @ random_suffix e2,
               email = ''manager@demo.com'', first_name = ''Manager'', last_name = ''User'',
               role = ''manager'', created_at = iso_timestamp e2\<rparr>])
     @ (if ''employee@demo.com'' \<in> email ` set (getStoredUsers st) then []
        else [\<lparr>user_id = ''mock_'' @ show_int (now_ms e3) @ ''_'' @ random_suffix e3,
               email = ''employee@demo.com'', first_name = ''Employee'', last_name = ''User'',
               role = ''employee'', created_at = iso_timestamp e3\<rparr>]) \<and>
   mock_session (createDemoUsers st (e1, e2, e3)) = mock_session st \<and>
   createDemoUsers (createDemoUsers st (e1, e2, e3)) envs' = createDemoUsers st (e1, e2, e3) \<and>
   getStoredUsers (createDemoUsers (createDemoUsers empty_store (e1, e2, e3)) envs') =
     [\<lparr>user_id = ''mock_'' @ show_int (now_ms e1) @ ''_'' @ random_suffix e1,
       email = ''admin@demo.com'', first_name = ''Admin'', last_name = ''User'',
       role = ''admin'', created_at = iso_timestamp e1\<rparr>,
      \<lparr>user_id = ''mock_'' @ show_int (now_ms e2) @ ''_'' @ random_suffix e2,
       email = ''manager@demo.com'', first_name = ''Manager'', last_name = ''User'',
       role = ''manager'', created_at = iso_timestamp e2\<rparr>,
      \<lparr>user_id = ''mock_'' @ show_int (now_ms e3) @ ''_'' @ random_suffix e3,
       email = ''employee@demo.com'', first_name = ''Employee'', last_name = ''User'',
       role = ''employee'', created_at = iso_timestamp e3\<rparr>] \<and>
   length (getStoredUsers (createDemoUsers (createDemoUsers empty_store (e1, e2, e3)) envs')) = 3 \<and>
   map email (getStoredUsers (createDemoUsers (createDemoUsers empty_store (e1, e2, e3)) envs'))
     = [''admin@demo.com'', ''manager@demo.com'', ''employee@demo.com'']"
proof -
  obtain f1 f2 f3 where envs': "envs' = (f1, f2, f3)" by (cases envs') auto
  have same: "createDemoUsers (createDemoUsers st (e1, e2, e3)) envs' = createDemoUsers st (e1, e2, e3)"
    for st
    by (simp only: envs' createDemoUsers_idem)
  have empty: "getStoredUsers empty_store = []"
    by (simp add: getStoredUsers_def empty_store_def)
  show ?thesis
    by (simp only: same createDemoUsers_session createDemoUsers_users [of empty_store] empty)
       (simp add: createDemoUsers_users)
qed

text \<open>
  The theorem at a store that holds another user and a user with the email of the manager
  demo identity: both are kept, the manager is skipped, the admin and the employee are
  appended.
\<close>

theorem createDemoUsers_twice_witness:
  "getStoredUsers partial_store = [alice, old_manager] \<and>
   getStoredUsers (createDemoUsers partial_store (example_env, example_env, example_env))
     = [alice, old_manager, example_admin, example_employee] \<and>
   createDemoUsers (createDemoUsers partial_store (example_env, example_env, example_env))
       (example_env, example_env, example_env)
     = createDemoUsers partial_store (example_env, example_env, example_env) \<and>
   getStoredUsers (createDemoUsers (createDemoUsers empty_store (example_env, example_env, example_env))
       (example_env, example_env, example_env))
     = [example_admin, example_manager, example_employee]"
proof -
  let ?E = "(example_env, example_env, example_env)"
  note t = createDemoUsers_twice [of partial_store example_env example_env example_env ?E]
  have us: "getStoredUsers partial_store = [alice, old_manager]"
    by (simp add: getStoredUsers_def partial_store_def)
  have em: "email ` set [alice, old_manager] = {''a@x.com'', ''manager@demo.com''}"
    by (simp add: alice_def old_manager_def)
  have first: "getStoredUsers (createDemoUsers partial_store ?E)
      = [alice, old_manager, example_admin, example_employee]"
    unfolding t [THEN conjunct1] us em example_env_id example_admin_def example_employee_def
    by simp
  have idem: "createDemoUsers (createDemoUsers partial_store ?E) ?E = createDemoUsers partial_store ?E"
    by (rule t [THEN conjunct2, THEN conjunct2, THEN conjunct1])
  have twice: "getStoredUsers (createDemoUsers (createDemoUsers empty_store ?E) ?E)
      = [example_admin, example_manager, example_employee]"
    unfolding t [THEN conjunct2, THEN conjunct2, THEN conjunct2, THEN conjunct1]
      example_env_id example_admin_def example_manager_def example_employee_def
    by simp
  from us first idem twice show ?thesis by blast
qed

section \<open>Properties of the session coordinator\<close>

lemma initializeAuth_primary_profile:
  "fst (getSession (createDemoUsers st envs) now) = None \<Longrightarrow>
   profile (fst (initializeAuth a st envs now (PrimarySession (Some s)) fetch))
     = Some (case fetch of FetchRow row \<Rightarrow> row
                         | FetchError _ \<Rightarrow> fallbackProfile (supa_user s)
                         | FetchThrown _ \<Rightarrow> fallbackProfile (supa_user s))"
  by (cases "getSession (createDemoUsers st envs) now")
     (simp add: initializeAuth_def Let_def split: ProfileFetch.splits)

lemma onAuthStateChange_profile:
  "\<not> mock \<Longrightarrow>
   profile (onAuthStateChange mock a (Some s) fetch)
     = Some (case fetch of FetchRow row \<Rightarrow> row
                         | FetchError _ \<Rightarrow> fallbackProfile (supa_user s)
                         | FetchThrown _ \<Rightarrow> fallbackProfile (supa_user s))"
  by (simp add: onAuthStateChange_def Let_def split: ProfileFetch.splits)

lemma no_mock_session_initially:
  "fst (getSession (createDemoUsers empty_store (example_env, example_env, example_env)) 5000) = None"
  by (simp add: createDemoUsers_def demoUsers_def empty_store_def getStoredUsers_def
      signUp_def saveUsers_def Let_def getSession_def getStoredSession_def)

lemma fallbackProfile_carol: "fallbackProfile (supa_user carol_session) = carol_fallback"
  by (simp add: fallbackProfile_def carol_session_def carol_def carol_fallback_def
      metadata_field_def or_else_def)

text \<open>
  Claim C8: when the coordinator holds a session of the primary provider (in
  \<^verbatim>\<open>initializeAuth\<close> no unexpired mock session was found; in the listener the mock mode
  is off) and the profile fetch fails, by an error in its result or by an exception, the
  profile is set to a synthesized one: its id is the session user's id, its email the
  session user's email (the empty string when the user has none), and its first name,
  last name and role are the metadata fields of those names, with \<^verbatim>\<open>User\<close>, \<^verbatim>\<open>Name\<close> and
  \<^verbatim>\<open>employee\<close> in place of a missing (or empty) one. When the fetch succeeds, the
  profile is set to the fetched row as it is.
\<close>

theorem profile_after_fetch:
  assumes "fst (getSession (createDemoUsers st envs) now) = None" and "\<not> mock"
  shows "(fetch = FetchError msg \<or> fetch = FetchThrown msg \<longrightarrow>
            profile (fst (initializeAuth a st envs now (PrimarySession (Some s)) fetch))
              = Some (fallbackProfile (supa_user s)) \<and>
            profile (onAuthStateChange mock a (Some s) fetch)
              = Some (fallbackProfile (supa_user s))) \<and>
         (fetch = FetchRow row \<longrightarrow>
            profile (fst (initializeAuth a st envs now (PrimarySession (Some s)) fetch)) = Some row \<and>
            profile (onAuthStateChange mock a (Some s) fetch) = Some row) \<and>
         fallbackProfile (supa_user s) =
           \<lparr>p_id = su_id (supa_user s),
            p_email = (case su_email (supa_user s) of None \<Rightarrow> [] | Some e \<Rightarrow> e),
            p_first_name =
              (case metadata_field (supa_user s) ''first_name'' of
                 None \<Rightarrow> ''User'' | Some v \<Rightarrow> if v = [] then ''User'' else v),
            p_last_name =
              (case metadata_field (supa_user s) ''last_name'' of
                 None \<Rightarrow> ''Name'' | Some v \<Rightarrow> if v = [] then ''Name'' else v),
            p_role =
              (case metadata_field (supa_user s) ''role'' of
                 None \<Rightarrow> ''employee'' | Some v \<Rightarrow> if v = [] then ''employee'' else v),
            manager_id = None,
            department = None\<rparr>"
proof -
  note init = initializeAuth_primary_profile [OF assms(1), of a s fetch]
  note chg = onAuthStateChange_profile [OF assms(2), of a s fetch]
  have failed: "fetch = FetchError msg \<or> fetch = FetchThrown msg \<longrightarrow>
            profile (fst (initializeAuth a st envs now (PrimarySession (Some s)) fetch))
              = Some (fallbackProfile (supa_user s)) \<and>
            profile (onAuthStateChange mock a (Some s) fetch)
              = Some (fallbackProfile (supa_user s))"
    using init chg by auto
  have ok: "fetch = FetchRow row \<longrightarrow>
            profile (fst (initializeAuth a st envs now (PrimarySession (Some s)) fetch)) = Some row \<and>
            profile (onAuthStateChange mock a (Some s) fetch) = Some row"
  proof
    assume "fetch = FetchRow row"
    with init chg
    show "profile (fst (initializeAuth a st envs now (PrimarySession (Some s)) fetch)) = Some row \<and>
          profile (onAuthStateChange mock a (Some s) fetch) = Some row"
      by simp
  qed
  have synth: "fallbackProfile (supa_user s) =
           \<lparr>p_id = su_id (supa_user s),
            p_email = (case su_email (supa_user s) of None \<Rightarrow> [] | Some e \<Rightarrow> e),
            p_first_name =
              (case metadata_field (supa_user s) ''first_name'' of
                 None \<Rightarrow> ''User'' | Some v \<Rightarrow> if v = [] then ''User'' else v),
            p_last_name =
              (case metadata_field (supa_user s) ''last_name'' of
                 None \<Rightarrow> ''Name'' | Some v \<Rightarrow> if v = [] then ''Name'' else v),
            p_role =
              (case metadata_field (supa_user s) ''role'' of
                 None \<Rightarrow> ''employee'' | Some v \<Rightarrow> if v = [] then ''employee'' else v),
            manager_id = None,
            department = None\<rparr>"
    by (simp add: fallbackProfile_def or_else_def split: option.splits)
  from failed ok synth show ?thesis
    by (intro conjI)
qed

theorem profile_after_fetch_witness:
  "fst (getSession (createDemoUsers empty_store (example_env, example_env, example_env)) 5000) = None \<and>
   profile (fst (initializeAuth initial_state empty_store (example_env, example_env, example_env) 5000
                   (PrimarySession (Some carol_session)) (FetchError ''PGRST116'')))
     = Some carol_fallback \<and>
   profile (onAuthStateChange False initial_state (Some carol_session) (FetchThrown ''network''))
     = Some carol_fallback \<and>
   profile (onAuthStateChange False initial_state (Some carol_session) (FetchRow carol_row))
     = Some carol_row \<and>
   p_first_name carol_fallback = ''Carol'' \<and> p_last_name carol_fallback = ''Name'' \<and>
   p_role carol_fallback = ''employee''"
proof -
  have nm: "\<not> False" by simp
  have fields: "p_first_name carol_fallback = ''Carol''" "p_last_name carol_fallback = ''Name''"
    "p_role carol_fallback = ''employee''"
    by (simp_all add: carol_fallback_def)
  from profile_after_fetch [OF no_mock_session_initially nm,
      of "FetchError ''PGRST116''" "''PGRST116''" initial_state carol_session carol_row]
    profile_after_fetch [OF no_mock_session_initially nm,
      of "FetchThrown ''network''" "''network''" initial_state carol_session carol_row]
    profile_after_fetch [OF no_mock_session_initially nm,
      of "FetchRow carol_row" "''x''" initial_state carol_session carol_row]
    no_mock_session_initially fields
  show ?thesis
    unfolding fallbackProfile_carol by blast
qed

end
